theory Spec2Isabelle
  imports Complex_Main
begin

section \<open>Numbers, arrays and errors\<close>

text \<open>
  The module \<open>visualization_utils.py\<close> works on numpy arrays of floats. A float is
  modelled as a real number, a one-dimensional array as a list and a two-dimensional
  array as the list of its rows. A list of rows with no row carries no column count, so
  the shape checks numpy performs on arrays without rows are not represented.
  Every exception the module's own statements can raise is a value of \<open>error\<close>; a
  function that can raise returns \<open>error + 'a\<close>.
\<close>

type_synonym vec = "real list"
type_synonym mat = "real list list"

datatype error = NotImplementedError | IndexError | ValueError | AttributeError | AssertionError

text \<open>\<open>np.clip(x, a_min, a_max)\<close> is \<open>minimum(maximum(x, a_min), a_max)\<close>.\<close>

definition clip :: "real \<Rightarrow> real \<Rightarrow> real \<Rightarrow> real" where
  "clip x a_min a_max = min (max x a_min) a_max"


text \<open>Python's \<open>int(x)\<close> on a float drops the fraction: it rounds toward zero.\<close>

definition py_int :: "real \<Rightarrow> int" where
  "py_int x = (if 0 \<le> x then \<lfloor>x\<rfloor> else \<lceil>x\<rceil>)"


definition dot :: "vec \<Rightarrow> vec \<Rightarrow> real" where
  "dot a b = sum_list (map2 (*) a b)"

text \<open>
  \<open>A @ M.T\<close>: entry \<open>(i, j)\<close> is the product of row \<open>i\<close> of \<open>A\<close> with row \<open>j\<close> of
  \<open>M\<close>; numpy raises ValueError unless the rows of both have the same length.
\<close>

definition matmul_T :: "vec list \<Rightarrow> mat \<Rightarrow> error + vec list" where
  "matmul_T A M =
     (if list_all (\<lambda>a. list_all (\<lambda>m. length m = length a) M) A
      then Inr (map (\<lambda>a. map (dot a) M) A)
      else Inl ValueError)"

section \<open>Projection onto the image plane\<close>

text \<open>
  Both projections run the same three statements on the product array \<open>pts_2d\<close>:
  \<^verbatim>\<open>pts_2d[:, 2] = np.clip(pts_2d[:, 2], a_min=.., a_max=..)\<close>,
  \<^verbatim>\<open>pts_2d[:, 0] /= pts_2d[:, 2]\<close>, \<^verbatim>\<open>pts_2d[:, 1] /= pts_2d[:, 2]\<close>.
  \<open>perspective_divide\<close> is their effect on one row.
\<close>

definition perspective_divide :: "real \<Rightarrow> real \<Rightarrow> vec \<Rightarrow> vec" where
  "perspective_divide a_min a_max r =
     (let r1 = r[2 := clip (r ! 2) a_min a_max];
          r2 = r1[0 := r1 ! 0 / r1 ! 2];
          r3 = r2[1 := r2 ! 1 / r2 ! 2]
      in r3)"

text \<open>\<open>np.concatenate([points[:, :3], np.ones((num_points, 1))], axis=-1)\<close>\<close>

definition pts_4d_of :: "vec list \<Rightarrow> vec list" where
  "pts_4d_of points = map (\<lambda>p. take 3 p @ [1]) points"

text \<open>
  The array \<open>pts_2d\<close> of \<open>project_pts_on_img\<close> after the divide. Column 2 of an array
  with fewer than three columns raises IndexError; the product has one column per row of
  \<open>lidar2img_rt\<close>.
\<close>

definition project_pts_on_img_pts_2d :: "vec list \<Rightarrow> mat \<Rightarrow> error + vec list" where
  "project_pts_on_img_pts_2d points lidar2img_rt =
     (case matmul_T (pts_4d_of points) lidar2img_rt of
        Inl e \<Rightarrow> Inl e
      | Inr pts_2d \<Rightarrow>
          if length lidar2img_rt < 3 then Inl IndexError
          else Inr (map (perspective_divide (1 / 100000) 99999) pts_2d))"





text \<open>
  \<open>draw_lidar_bbox3d_on_img\<close> takes the corners of the boxes, eight points a box
  (\<open>bboxes3d.corners\<close>, of shape \<open>[num_bbox, 8, 3]\<close>), and a matrix that it reshapes to
  four by four. Corners of another shape do not fit the column of \<open>8 * num_bbox\<close> ones
  they are concatenated with, and a matrix without sixteen entries does not reshape: both
  raise ValueError.
\<close>

definition reshape_4_4 :: "mat \<Rightarrow> error + mat" where
  "reshape_4_4 m =
     (let xs = concat m
      in if length xs = 16
         then Inr [take 4 xs, take 4 (drop 4 xs), take 4 (drop 8 xs), take 4 (drop 12 xs)]
         else Inl ValueError)"

text \<open>\<open>reshape(num_bbox, 8, 2)\<close> of an array of \<open>8 * num_bbox\<close> rows.\<close>

definition reshape_8 :: "nat \<Rightarrow> vec list \<Rightarrow> vec list list" where
  "reshape_8 num_bbox xs = map (\<lambda>i. take 8 (drop (8 * i) xs)) [0..<num_bbox]"

definition draw_lidar_bbox3d_on_img_pts_2d :: "vec list list \<Rightarrow> mat \<Rightarrow> error + vec list" where
  "draw_lidar_bbox3d_on_img_pts_2d corners_3d lidar2img_rt =
     (if \<not> list_all (\<lambda>b. length b = 8 \<and> list_all (\<lambda>p. length p = 3) b) corners_3d
      then Inl ValueError
      else case reshape_4_4 lidar2img_rt of
        Inl e \<Rightarrow> Inl e
      | Inr m \<Rightarrow>
         (case matmul_T (map (\<lambda>p. p @ [1]) (concat corners_3d)) m of
            Inl e \<Rightarrow> Inl e
          | Inr pts_2d \<Rightarrow> Inr (map (perspective_divide (1 / 100000) 100000) pts_2d)))"

text \<open>The twelve edges of a box, as pairs of corner numbers.\<close>

definition line_indices :: "(nat \<times> nat) list" where
  "line_indices = [(0, 1), (0, 3), (0, 4), (1, 2), (1, 5), (3, 2), (3, 7),
                   (4, 5), (4, 7), (2, 6), (5, 6), (6, 7)]"

text \<open>
  \<open>plot_rect3d_on_img\<close>: the line segments drawn, in order. \<open>astype(np.int)\<close> rounds
  toward zero.
\<close>

type_synonym line = "(int \<times> int) \<times> (int \<times> int)"

definition plot_rect3d_on_img :: "nat \<Rightarrow> vec list list \<Rightarrow> error + line list" where
  "plot_rect3d_on_img num_rects rect_corners =
     (if length rect_corners < num_rects then Inl IndexError
      else Inr (concat (map (\<lambda>i.
             let corners = map (map py_int) (rect_corners ! i)
             in map (\<lambda>(start, end).
                      ((corners ! start ! 0, corners ! start ! 1),
                       (corners ! end ! 0, corners ! end ! 1))) line_indices)
           [0..<num_rects])))"

definition draw_lidar_bbox3d_on_img :: "vec list list \<Rightarrow> mat \<Rightarrow> error + line list" where
  "draw_lidar_bbox3d_on_img corners_3d lidar2img_rt =
     (case draw_lidar_bbox3d_on_img_pts_2d corners_3d lidar2img_rt of
        Inl e \<Rightarrow> Inl e
      | Inr pts_2d \<Rightarrow>
          plot_rect3d_on_img (length corners_3d) (reshape_8 (length corners_3d) (map (take 2) pts_2d)))"

section \<open>The three-dimensional viewer\<close>

text \<open>
  Open3D is not part of the module. Its point cloud and its oriented box are records of
  the data the module stores in them, and the viewer is the list of the calls made on it,
  in order; the module never reads what a viewer call returns.
\<close>

record pointcloud =
  pcd_points :: "vec list"
  pcd_colors :: "vec list"

record obb =
  obb_center :: vec
  obb_R :: mat
  obb_extent :: vec

datatype geom = PointCloudG pointcloud | LineSetG obb vec | CoordinateFrameG vec

datatype vis_call =
    CreateWindow
  | SetPointSize int
  | AddGeometry geom
  | UpdateGeometry geom
  | Run
  | CaptureScreenImage string
  | DestroyWindow

type_synonym viewer = "vis_call list"

text \<open>
  \<open>geometry.get_rotation_matrix_from_xyz\<close>: the product of the rotations about the x,
  the y and the z axis, by the three angles given.
\<close>

definition mat_mul :: "mat \<Rightarrow> mat \<Rightarrow> mat" where
  "mat_mul A B = map (\<lambda>a. map (dot a) (transpose B)) A"

definition RotationMatrixX :: "real \<Rightarrow> mat" where
  "RotationMatrixX t = [[1, 0, 0], [0, cos t, - sin t], [0, sin t, cos t]]"

definition RotationMatrixY :: "real \<Rightarrow> mat" where
  "RotationMatrixY t = [[cos t, 0, sin t], [0, 1, 0], [- sin t, 0, cos t]]"

definition RotationMatrixZ :: "real \<Rightarrow> mat" where
  "RotationMatrixZ t = [[cos t, - sin t, 0], [sin t, cos t, 0], [0, 0, 1]]"

definition get_rotation_matrix_from_xyz :: "vec \<Rightarrow> mat" where
  "get_rotation_matrix_from_xyz r =
     mat_mul (mat_mul (RotationMatrixX (r ! 0)) (RotationMatrixY (r ! 1))) (RotationMatrixZ (r ! 2))"

text \<open>
  \<open>OrientedBoundingBox.get_point_indices_within_bounding_box\<close>: a point is inside when
  its offset from the centre, taken along each of the three box axes (the columns of the
  rotation), is at most half the extent on that axis.
\<close>

definition within_bounding_box :: "obb \<Rightarrow> vec \<Rightarrow> bool" where
  "within_bounding_box b p =
     (let d = map2 (-) p (obb_center b)
      in \<bar>dot d (map (\<lambda>r. r ! 0) (obb_R b))\<bar> \<le> obb_extent b ! 0 / 2 \<and>
         \<bar>dot d (map (\<lambda>r. r ! 1) (obb_R b))\<bar> \<le> obb_extent b ! 1 / 2 \<and>
         \<bar>dot d (map (\<lambda>r. r ! 2) (obb_R b))\<bar> \<le> obb_extent b ! 2 / 2)"

definition get_point_indices_within_bounding_box :: "obb \<Rightarrow> vec list \<Rightarrow> nat list" where
  "get_point_indices_within_bounding_box b pts =
     filter (\<lambda>i. within_bounding_box b (pts ! i)) [0..<length pts]"

text \<open>
  An index into an axis of \<open>n\<close> entries: numpy counts a negative index from the end and
  raises IndexError outside \<open>-n .. n-1\<close>.
\<close>

definition py_index :: "nat \<Rightarrow> int \<Rightarrow> error + nat" where
  "py_index n i =
     (if 0 \<le> i \<and> i < int n then Inr (nat i)
      else if - int n \<le> i \<and> i < 0 then Inr (nat (i + int n))
      else Inl IndexError)"

text \<open>\<open>points_colors[indices] = in_box_color\<close> with a list of row numbers.\<close>

definition set_rows :: "nat list \<Rightarrow> vec \<Rightarrow> vec list \<Rightarrow> error + vec list" where
  "set_rows indices c cols =
     (if list_all (\<lambda>i. i < length cols) indices
      then Inr (fold (\<lambda>i cs. cs[i := c]) indices cols)
      else Inl IndexError)"

text \<open>
  \<open>points_colors[mask] = in_box_color\<close> with a boolean mask, which must have one entry
  per row.
\<close>

definition set_rows_mask :: "bool list \<Rightarrow> vec \<Rightarrow> vec list \<Rightarrow> error + vec list" where
  "set_rows_mask bmask c cols =
     (if length bmask = length cols
      then Inr (map2 (\<lambda>m x. if m then c else x) bmask cols)
      else Inl IndexError)"

subsection \<open>\<open>_draw_points\<close>\<close>

definition draw_points ::
  "vec list \<Rightarrow> viewer \<Rightarrow> int \<Rightarrow> vec \<Rightarrow> string \<Rightarrow> error + viewer \<times> pointcloud \<times> vec list" where
  "draw_points points vis points_size point_color mode =
     (let vis1 = vis @ [SetPointSize points_size]
      in if mode = ''xyz'' then
           let points_colors = replicate (length points) point_color;
               pcd = \<lparr>pcd_points = map (take 3) points, pcd_colors = points_colors\<rparr>
           in Inr (vis1 @ [AddGeometry (PointCloudG pcd)], pcd, points_colors)
         else if mode = ''xyzrgb'' then
           let points_colors = map (\<lambda>p. take 3 (drop 3 p)) points;
               points_colors =
                 (if \<not> list_all (list_all (\<lambda>c. 0 \<le> c \<and> c \<le> 1)) points_colors
                  then map (map (\<lambda>c. c / 255)) points_colors
                  else points_colors);
               pcd = \<lparr>pcd_points = map (take 3) points, pcd_colors = points_colors\<rparr>
           in Inr (vis1 @ [AddGeometry (PointCloudG pcd)], pcd, points_colors)
         else Inl NotImplementedError)"

subsection \<open>\<open>_draw_bboxes\<close> and \<open>_draw_bboxes_ind\<close>\<close>

text \<open>
  The box built from one row of \<open>bbox3d\<close> in the loop of \<open>_draw_bboxes\<close>. Reading
  column 6 of a row, or entry \<open>rot_axis\<close> of a three-vector, can raise IndexError;
  \<open>center\<close> and \<open>dim\<close> are slices of the row.
\<close>

definition draw_bboxes_box :: "int \<Rightarrow> string \<Rightarrow> vec \<Rightarrow> error + obb" where
  "draw_bboxes_box rot_axis center_mode row =
     (let center = take 3 row; dim = take 3 (drop 3 row)
      in if length row < 7 then Inl IndexError
         else case py_index 3 rot_axis of
           Inl e \<Rightarrow> Inl e
         | Inr a \<Rightarrow>
             let yaw = (replicate 3 0)[a := row ! 6];
                 rot_mat = get_rotation_matrix_from_xyz yaw;
                 center =
                   (if center_mode = ''lidar_bottom'' then center[a := center ! a + dim ! a / 2]
                    else if center_mode = ''camera_bottom'' then center[a := center ! a - dim ! a / 2]
                    else center)
             in Inr \<lparr>obb_center = center, obb_R = rot_mat, obb_extent = dim\<rparr>)"

text \<open>The same in the loop of \<open>_draw_bboxes_ind\<close>, which negates the angle.\<close>

definition draw_bboxes_ind_box :: "int \<Rightarrow> string \<Rightarrow> vec \<Rightarrow> error + obb" where
  "draw_bboxes_ind_box rot_axis center_mode row =
     (let center = take 3 row; dim = take 3 (drop 3 row)
      in if length row < 7 then Inl IndexError
         else case py_index 3 rot_axis of
           Inl e \<Rightarrow> Inl e
         | Inr a \<Rightarrow>
             let yaw = (replicate 3 0)[a := - row ! 6];
                 rot_mat = get_rotation_matrix_from_xyz yaw;
                 center =
                   (if center_mode = ''lidar_bottom'' then center[a := center ! a + dim ! a / 2]
                    else if center_mode = ''camera_bottom'' then center[a := center ! a - dim ! a / 2]
                    else center)
             in Inr \<lparr>obb_center = center, obb_R = rot_mat, obb_extent = dim\<rparr>)"

text \<open>
  The loop of \<open>_draw_bboxes\<close> over the rows of \<open>bbox3d\<close>; it threads the viewer and the
  colour array, which it updates in place.
\<close>

fun draw_bboxes_loop ::
  "vec list \<Rightarrow> viewer \<Rightarrow> vec list \<Rightarrow> pointcloud option \<Rightarrow> vec \<Rightarrow> vec \<Rightarrow> int \<Rightarrow> string \<Rightarrow> string
     \<Rightarrow> error + viewer \<times> vec list" where
  "draw_bboxes_loop [] vis points_colors pcd bbox_color in_box_color rot_axis center_mode mode =
     Inr (vis, points_colors)"
| "draw_bboxes_loop (row # rows) vis points_colors pcd bbox_color in_box_color rot_axis center_mode mode =
     (case draw_bboxes_box rot_axis center_mode row of
        Inl e \<Rightarrow> Inl e
      | Inr box3d \<Rightarrow>
          let vis1 = vis @ [AddGeometry (LineSetG box3d bbox_color)]
          in (case pcd of
                Some p \<Rightarrow>
                  if mode = ''xyz'' then
                    (case set_rows (get_point_indices_within_bounding_box box3d (pcd_points p))
                            in_box_color points_colors of
                       Inl e \<Rightarrow> Inl e
                     | Inr points_colors1 \<Rightarrow>
                         draw_bboxes_loop rows vis1 points_colors1 pcd bbox_color in_box_color
                           rot_axis center_mode mode)
                  else draw_bboxes_loop rows vis1 points_colors pcd bbox_color in_box_color
                         rot_axis center_mode mode
              | None \<Rightarrow>
                  draw_bboxes_loop rows vis1 points_colors pcd bbox_color in_box_color
                    rot_axis center_mode mode))"

definition draw_bboxes ::
  "vec list \<Rightarrow> viewer \<Rightarrow> vec list \<Rightarrow> pointcloud option \<Rightarrow> vec \<Rightarrow> vec \<Rightarrow> int \<Rightarrow> string \<Rightarrow> string
     \<Rightarrow> error + viewer \<times> vec list \<times> pointcloud option" where
  "draw_bboxes bbox3d vis points_colors pcd bbox_color points_in_box_color rot_axis center_mode mode =
     (case draw_bboxes_loop bbox3d vis points_colors pcd bbox_color points_in_box_color
             rot_axis center_mode mode of
        Inl e \<Rightarrow> Inl e
      | Inr (vis1, points_colors1) \<Rightarrow>
          (case pcd of
             Some p \<Rightarrow>
               let p1 = p\<lparr>pcd_colors := points_colors1\<rparr>
               in Inr (vis1 @ [UpdateGeometry (PointCloudG p1)], points_colors1, Some p1)
           | None \<Rightarrow> Inr (vis1, points_colors1, None)))"

text \<open>
  The loop of \<open>_draw_bboxes_ind\<close>: box \<open>i\<close> recolours the points whose entry in column
  \<open>i\<close> of \<open>indices\<close> is not zero (\<open>astype(np.bool)\<close>). Reading a column the matrix does
  not have raises IndexError.
\<close>

fun draw_bboxes_ind_loop ::
  "nat \<Rightarrow> vec list \<Rightarrow> viewer \<Rightarrow> mat \<Rightarrow> vec list \<Rightarrow> pointcloud option \<Rightarrow> vec \<Rightarrow> vec \<Rightarrow> int \<Rightarrow> string
     \<Rightarrow> string \<Rightarrow> error + viewer \<times> vec list" where
  "draw_bboxes_ind_loop i [] vis indices points_colors pcd bbox_color in_box_color rot_axis
       center_mode mode =
     Inr (vis, points_colors)"
| "draw_bboxes_ind_loop i (row # rows) vis indices points_colors pcd bbox_color in_box_color rot_axis
       center_mode mode =
     (case draw_bboxes_ind_box rot_axis center_mode row of
        Inl e \<Rightarrow> Inl e
      | Inr box3d \<Rightarrow>
          let vis1 = vis @ [AddGeometry (LineSetG box3d bbox_color)]
          in (case pcd of
                Some p \<Rightarrow>
                  if mode = ''xyz'' then
                    if \<not> list_all (\<lambda>r. i < length r) indices then Inl IndexError
                    else
                      (case set_rows_mask (map (\<lambda>r. r ! i \<noteq> 0) indices) in_box_color
                              points_colors of
                         Inl e \<Rightarrow> Inl e
                       | Inr points_colors1 \<Rightarrow>
                           draw_bboxes_ind_loop (i + 1) rows vis1 indices points_colors1 pcd
                             bbox_color in_box_color rot_axis center_mode mode)
                  else draw_bboxes_ind_loop (i + 1) rows vis1 indices points_colors pcd bbox_color
                         in_box_color rot_axis center_mode mode
              | None \<Rightarrow>
                  draw_bboxes_ind_loop (i + 1) rows vis1 indices points_colors pcd bbox_color
                    in_box_color rot_axis center_mode mode))"

definition draw_bboxes_ind ::
  "vec list \<Rightarrow> viewer \<Rightarrow> mat \<Rightarrow> vec list \<Rightarrow> pointcloud option \<Rightarrow> vec \<Rightarrow> vec \<Rightarrow> int \<Rightarrow> string
     \<Rightarrow> string \<Rightarrow> error + viewer \<times> vec list \<times> pointcloud option" where
  "draw_bboxes_ind bbox3d vis indices points_colors pcd bbox_color points_in_box_color rot_axis
       center_mode mode =
     (case draw_bboxes_ind_loop 0 bbox3d vis indices points_colors pcd bbox_color
             points_in_box_color rot_axis center_mode mode of
        Inl e \<Rightarrow> Inl e
      | Inr (vis1, points_colors1) \<Rightarrow>
          (case pcd of
             Some p \<Rightarrow>
               let p1 = p\<lparr>pcd_colors := points_colors1\<rparr>
               in Inr (vis1 @ [UpdateGeometry (PointCloudG p1)], points_colors1, Some p1)
           | None \<Rightarrow> Inr (vis1, points_colors1, None)))"

subsection \<open>The class \<open>Visualizer\<close>\<close>

text \<open>
  The attributes of a \<open>Visualizer\<close> object. \<open>pcd\<close> and \<open>points_colors\<close> are set only
  when the constructor is given points: \<open>None\<close> stands for the missing attribute, and
  reading it raises AttributeError.
\<close>

record visualizer =
  o3d_visualizer :: viewer
  points_size :: int
  point_color :: vec
  bbox_color :: vec
  points_in_box_color :: vec
  rot_axis :: int
  center_mode :: string
  mode :: string
  seg_num :: nat
  pcd :: "pointcloud option"
  points_colors :: "vec list option"

text \<open>
  \<open>Visualizer.__init__\<close>; its parameters carry a prime where an attribute has the same
  name. The parameter \<open>save_path\<close> is not used by the constructor.
\<close>

definition Visualizer_init ::
  "vec list option \<Rightarrow> vec list option \<Rightarrow> int \<Rightarrow> vec \<Rightarrow> vec \<Rightarrow> vec \<Rightarrow> int \<Rightarrow> string \<Rightarrow> string
     \<Rightarrow> error + visualizer" where
  "Visualizer_init points bbox3d points_size' point_color' bbox_color' points_in_box_color'
       rot_axis' center_mode' mode' =
     (if \<not> (0 \<le> rot_axis' \<and> rot_axis' \<le> 2) then Inl AssertionError
      else
        let self = \<lparr>o3d_visualizer = [CreateWindow, AddGeometry (CoordinateFrameG [0, 0, 0])],
                    points_size = points_size', point_color = point_color',
                    bbox_color = bbox_color', points_in_box_color = points_in_box_color',
                    rot_axis = rot_axis', center_mode = center_mode', mode = mode',
                    seg_num = 0, pcd = None, points_colors = None\<rparr>
        in case (case points of
                   None \<Rightarrow> Inr self
                 | Some pts \<Rightarrow>
                     (case draw_points pts (o3d_visualizer self) points_size' point_color' mode' of
                        Inl e \<Rightarrow> Inl e
                      | Inr (vis1, pcd1, points_colors1) \<Rightarrow>
                          Inr (self\<lparr>o3d_visualizer := vis1, pcd := Some pcd1,
                                    points_colors := Some points_colors1\<rparr>))) of
             Inl e \<Rightarrow> Inl e
           | Inr self1 \<Rightarrow>
               (case bbox3d of
                  None \<Rightarrow> Inr self1
                | Some boxes \<Rightarrow>
                    (case points_colors self1 of
                       None \<Rightarrow> Inl AttributeError
                     | Some cols \<Rightarrow>
                         (case draw_bboxes boxes (o3d_visualizer self1) cols (pcd self1) bbox_color'
                                 points_in_box_color' rot_axis' center_mode' mode' of
                            Inl e \<Rightarrow> Inl e
                          | Inr (vis2, cols2, pcd2) \<Rightarrow>
                              Inr (self1\<lparr>o3d_visualizer := vis2, pcd := pcd2,
                                         points_colors := Some cols2\<rparr>)))))"

definition add_bboxes :: "visualizer \<Rightarrow> vec list \<Rightarrow> vec option \<Rightarrow> vec option \<Rightarrow> error + visualizer" where
  "add_bboxes self bbox3d bbox_color' points_in_box_color' =
     (let bc = (case bbox_color' of None \<Rightarrow> bbox_color self | Some c \<Rightarrow> c);
          pc = (case points_in_box_color' of None \<Rightarrow> points_in_box_color self | Some c \<Rightarrow> c)
      in case points_colors self of
           None \<Rightarrow> Inl AttributeError
         | Some cols \<Rightarrow>
             (case draw_bboxes bbox3d (o3d_visualizer self) cols (pcd self) bc pc (rot_axis self)
                     (center_mode self) (mode self) of
                Inl e \<Rightarrow> Inl e
              | Inr (vis1, cols1, pcd1) \<Rightarrow>
                  Inr (self\<lparr>o3d_visualizer := vis1, pcd := pcd1, points_colors := Some cols1\<rparr>)))"

text \<open>
  \<open>Visualizer.add_seg_mask\<close>. The extent is \<open>(max(0) - min(0))[0]\<close> over the rows of
  \<open>pcd.points\<close>, and numpy raises ValueError for the maximum of no rows. The point
  cloud drawn for the mask is not kept: \<open>self.pcd\<close> stays the base cloud.
\<close>

definition add_seg_mask :: "visualizer \<Rightarrow> vec list \<Rightarrow> error + visualizer" where
  "add_seg_mask self seg_mask_colors =
     (let self1 = self\<lparr>seg_num := seg_num self + 1\<rparr>
      in case pcd self1 of
           None \<Rightarrow> Inl AttributeError
         | Some p \<Rightarrow>
             if pcd_points p = [] then Inl ValueError
             else
               let xs = map (\<lambda>q. q ! 0) (pcd_points p);
                   offset = (Max (set xs) - Min (set xs)) * (12 / 10) * real (seg_num self1);
                   vis1 = o3d_visualizer self1 @ [AddGeometry (CoordinateFrameG [offset, 0, 0])];
                   seg_points = map (\<lambda>q. q[0 := q ! 0 + offset]) seg_mask_colors
               in (case draw_points seg_points vis1 (points_size self1) [5 / 10, 5 / 10, 5 / 10]
                         ''xyzrgb'' of
                     Inl e \<Rightarrow> Inl e
                   | Inr (vis2, pcd2, points_colors2) \<Rightarrow> Inr (self1\<lparr>o3d_visualizer := vis2\<rparr>)))"

text \<open>\<open>Visualizer.show\<close>: it runs the viewer, saves the image when asked and destroys the window.\<close>

definition Visualizer_show :: "visualizer \<Rightarrow> string option \<Rightarrow> visualizer" where
  "Visualizer_show self save_path =
     self\<lparr>o3d_visualizer :=
       o3d_visualizer self @ [Run]
         @ (case save_path of None \<Rightarrow> [] | Some path \<Rightarrow> [CaptureScreenImage path])
         @ [DestroyWindow]\<rparr>"

text \<open>Successive calls of \<open>add_seg_mask\<close> on one scene, one per mask of the list.\<close>

fun add_seg_masks :: "visualizer \<Rightarrow> vec list list \<Rightarrow> error + visualizer" where
  "add_seg_masks self [] = Inr self"
| "add_seg_masks self (m # ms) =
     (case add_seg_mask self m of Inl e \<Rightarrow> Inl e | Inr self1 \<Rightarrow> add_seg_masks self1 ms)"

section \<open>Properties of the projection\<close>

lemma perspective_divide_nth:
  assumes "2 < length r"
  shows "perspective_divide a_min a_max r ! 2 = clip (r ! 2) a_min a_max"
    and "perspective_divide a_min a_max r ! 0 = r ! 0 / clip (r ! 2) a_min a_max"
    and "perspective_divide a_min a_max r ! 1 = r ! 1 / clip (r ! 2) a_min a_max"
proof -
  from assms have ne: "r \<noteq> []" by auto
  show "perspective_divide a_min a_max r ! 2 = clip (r ! 2) a_min a_max"
    using assms ne by (simp add: perspective_divide_def Let_def)
  show "perspective_divide a_min a_max r ! 0 = r ! 0 / clip (r ! 2) a_min a_max"
    using assms ne by (simp add: perspective_divide_def Let_def)
  show "perspective_divide a_min a_max r ! 1 = r ! 1 / clip (r ! 2) a_min a_max"
    using assms ne by (simp add: perspective_divide_def Let_def)
qed

lemma matmul_T_nth:
  assumes "matmul_T A M = Inr P" "i < length A"
  shows "length P = length A" and "P ! i = map (dot (A ! i)) M"
  using assms by (auto simp: matmul_T_def split: if_splits)

lemma clip_lower: "a_min \<le> a_max \<Longrightarrow> a_min \<le> clip x a_min a_max"
  by (simp add: clip_def)

lemma divided_row:
  fixes h :: vec
  assumes "2 < length M" "0 < a_min" "a_min \<le> a_max"
  defines "q \<equiv> perspective_divide a_min a_max (map (dot h) M)"
  shows "a_min \<le> q ! 2 \<and> q ! 2 \<noteq> 0 \<and>
         q ! 2 = clip (dot h (M ! 2)) a_min a_max \<and>
         q ! 0 = dot h (M ! 0) / q ! 2 \<and> q ! 1 = dot h (M ! 1) / q ! 2"
proof -
  have len: "2 < length (map (dot h) M)" using assms(1) by simp
  have ne: "M \<noteq> []" "1 < length M" using assms(1) by auto
  have q2: "q ! 2 = clip (dot h (M ! 2)) a_min a_max"
    unfolding q_def using perspective_divide_nth(1)[OF len] assms(1) by simp
  have lo: "a_min \<le> q ! 2" using q2 clip_lower[OF assms(3)] by simp
  have q0: "q ! 0 = dot h (M ! 0) / q ! 2"
    unfolding q_def using perspective_divide_nth(1,2)[OF len] ne by simp
  have q1: "q ! 1 = dot h (M ! 1) / q ! 2"
    unfolding q_def using perspective_divide_nth(1,3)[OF len] ne by simp
  show ?thesis using q2 lo q0 q1 assms(2) by auto
qed

lemma reshape_4_4_length: "reshape_4_4 M = Inr m \<Longrightarrow> length m = 4"
  by (auto simp: reshape_4_4_def Let_def split: if_splits)

lemma project_pts_on_img_row:
  assumes "project_pts_on_img_pts_2d points M = Inr qs" and "i < length points"
  shows "1 / 100000 \<le> qs ! i ! 2 \<and> qs ! i ! 2 \<noteq> 0 \<and>
       qs ! i ! 2 = clip (dot (pts_4d_of points ! i) (M ! 2)) (1 / 100000) 99999 \<and>
       qs ! i ! 0 = dot (pts_4d_of points ! i) (M ! 0) / qs ! i ! 2 \<and>
       qs ! i ! 1 = dot (pts_4d_of points ! i) (M ! 1) / qs ! i ! 2"
proof -
  from assms(1) obtain P where P: "matmul_T (pts_4d_of points) M = Inr P" and M: "2 < length M"
    and qs: "qs = map (perspective_divide (1 / 100000) 99999) P"
    by (auto simp: project_pts_on_img_pts_2d_def split: sum.splits if_splits)
  have i: "i < length (pts_4d_of points)" using assms(2) by (simp add: pts_4d_of_def)
  have "qs ! i = perspective_divide (1 / 100000) 99999 (map (dot (pts_4d_of points ! i)) M)"
    using matmul_T_nth[OF P i] i qs by simp
  then show ?thesis
    using divided_row[OF M, of "1 / 100000" 99999 "pts_4d_of points ! i"] by simp
qed

lemma draw_lidar_bbox3d_on_img_row:
  assumes "draw_lidar_bbox3d_on_img_pts_2d corners M = Inr qs" and "reshape_4_4 M = Inr m"
    and "j < length (concat corners)"
  shows "1 / 100000 \<le> qs ! j ! 2 \<and> qs ! j ! 2 \<noteq> 0 \<and>
       qs ! j ! 2 = clip (dot (concat corners ! j @ [1]) (m ! 2)) (1 / 100000) 100000 \<and>
       qs ! j ! 0 = dot (concat corners ! j @ [1]) (m ! 0) / qs ! j ! 2 \<and>
       qs ! j ! 1 = dot (concat corners ! j @ [1]) (m ! 1) / qs ! j ! 2"
proof -
  from assms(1,2) obtain P where P: "matmul_T (map (\<lambda>p. p @ [1]) (concat corners)) m = Inr P"
    and qs: "qs = map (perspective_divide (1 / 100000) 100000) P"
    by (auto simp: draw_lidar_bbox3d_on_img_pts_2d_def split: sum.splits if_splits)
  have M: "2 < length m" using assms(2) reshape_4_4_length by fastforce
  have j: "j < length (map (\<lambda>p. p @ [1]) (concat corners))" using assms(3) by simp
  have "qs ! j = perspective_divide (1 / 100000) 100000 (map (dot (concat corners ! j @ [1])) m)"
    using matmul_T_nth[OF P j] j qs by simp
  then show ?thesis
    using divided_row[OF M, of "1 / 100000" 100000 "concat corners ! j @ [1]"] by simp
qed

lemma clip_above: "a_min \<le> a_max \<Longrightarrow> a_max < x \<Longrightarrow> clip x a_min a_max = a_max"
  by (simp add: clip_def)






text \<open>
  Claim C10. The depth is clipped from above too: a point whose homogeneous depth exceeds
  \<open>99999\<close> (point overlay) or \<open>1e5\<close> (lidar boxes) has its first two components divided
  by that bound, and a non-zero component so divided differs from its quotient by the
  true depth.
\<close>

theorem projection_depth_clamped_above:
  "(project_pts_on_img_pts_2d points M = Inr qs \<and> i < length points \<and>
      99999 < dot (pts_4d_of points ! i) (M ! 2) \<longrightarrow>
      (qs ! i ! 2 = 99999 \<and>
       qs ! i ! 0 = dot (pts_4d_of points ! i) (M ! 0) / 99999 \<and>
       qs ! i ! 1 = dot (pts_4d_of points ! i) (M ! 1) / 99999 \<and>
       (dot (pts_4d_of points ! i) (M ! 0) \<noteq> 0 \<longrightarrow>
          qs ! i ! 0 \<noteq> dot (pts_4d_of points ! i) (M ! 0) / dot (pts_4d_of points ! i) (M ! 2)))) \<and>
   (draw_lidar_bbox3d_on_img_pts_2d corners M' = Inr qs' \<and> reshape_4_4 M' = Inr m \<and>
      j < length (concat corners) \<and> 100000 < dot (concat corners ! j @ [1]) (m ! 2) \<longrightarrow>
      (qs' ! j ! 2 = 100000 \<and>
       qs' ! j ! 0 = dot (concat corners ! j @ [1]) (m ! 0) / 100000 \<and>
       qs' ! j ! 1 = dot (concat corners ! j @ [1]) (m ! 1) / 100000 \<and>
       (dot (concat corners ! j @ [1]) (m ! 0) \<noteq> 0 \<longrightarrow>
          qs' ! j ! 0 \<noteq> dot (concat corners ! j @ [1]) (m ! 0) / dot (concat corners ! j @ [1]) (m ! 2))))"
proof -
  have far: "x / a \<noteq> x / d" if "x \<noteq> 0" "0 < a" "a < d" for x a d :: real
    using that by (simp add: field_simps)
  have one: "qs ! i ! 2 = 99999 \<and>
       qs ! i ! 0 = dot (pts_4d_of points ! i) (M ! 0) / 99999 \<and>
       qs ! i ! 1 = dot (pts_4d_of points ! i) (M ! 1) / 99999 \<and>
       (dot (pts_4d_of points ! i) (M ! 0) \<noteq> 0 \<longrightarrow>
          qs ! i ! 0 \<noteq> dot (pts_4d_of points ! i) (M ! 0) / dot (pts_4d_of points ! i) (M ! 2))"
    if h: "project_pts_on_img_pts_2d points M = Inr qs" "i < length points"
      "99999 < dot (pts_4d_of points ! i) (M ! 2)"
  proof -
    have c: "clip (dot (pts_4d_of points ! i) (M ! 2)) (1 / 100000) 99999 = 99999"
      using clip_above[of "1 / 100000" 99999] h(3) by simp
    show ?thesis
      using project_pts_on_img_row[OF h(1,2)] c
        far[of "dot (pts_4d_of points ! i) (M ! 0)" 99999 "dot (pts_4d_of points ! i) (M ! 2)"] h(3)
      by simp
  qed
  have two: "qs' ! j ! 2 = 100000 \<and>
       qs' ! j ! 0 = dot (concat corners ! j @ [1]) (m ! 0) / 100000 \<and>
       qs' ! j ! 1 = dot (concat corners ! j @ [1]) (m ! 1) / 100000 \<and>
       (dot (concat corners ! j @ [1]) (m ! 0) \<noteq> 0 \<longrightarrow>
          qs' ! j ! 0 \<noteq> dot (concat corners ! j @ [1]) (m ! 0) / dot (concat corners ! j @ [1]) (m ! 2))"
    if h: "draw_lidar_bbox3d_on_img_pts_2d corners M' = Inr qs'" "reshape_4_4 M' = Inr m"
      "j < length (concat corners)" "100000 < dot (concat corners ! j @ [1]) (m ! 2)"
  proof -
    have c: "clip (dot (concat corners ! j @ [1]) (m ! 2)) (1 / 100000) 100000 = 100000"
      using clip_above[of "1 / 100000" 100000] h(4) by simp
    show ?thesis
      using draw_lidar_bbox3d_on_img_row[OF h(1,2,3)] c
        far[of "dot (concat corners ! j @ [1]) (m ! 0)" 100000 "dot (concat corners ! j @ [1]) (m ! 2)"] h(4)
      by simp
  qed
  show ?thesis using one two by blast
qed

theorem projection_depth_clamped_above_witness:
  "(\<exists>qs. project_pts_on_img_pts_2d [[200000, 0, 200000]]
           [[1, 0, 0, 0], [0, 1, 0, 0], [0, 0, 1, 0], [0, 0, 0, 1]] = Inr qs \<and>
         qs ! 0 ! 2 = 99999 \<and> qs ! 0 ! 0 = 200000 / 99999 \<and> qs ! 0 ! 0 \<noteq> 1) \<and>
   (\<exists>qs m. draw_lidar_bbox3d_on_img_pts_2d
           [[[0, 0, 1], [0, 1, 1], [1, 1, 1], [1, 0, 1],
             [0, 0, 200000], [0, 1, 200000], [200000, 1, 200000], [1, 0, 200000]]]
           [[1, 0, 0, 0], [0, 1, 0, 0], [0, 0, 1, 0], [0, 0, 0, 1]] = Inr qs \<and>
         reshape_4_4 [[1, 0, 0, 0], [0, 1, 0, 0], [0, 0, 1, 0], [0, 0, 0, 1]] = Inr m \<and>
         qs ! 6 ! 2 = 100000 \<and> qs ! 6 ! 0 = 2 \<and> qs ! 6 ! 0 \<noteq> 1)"
proof -
  let ?I = "[[1, 0, 0, 0], [0, 1, 0, 0], [0, 0, 1, 0], [0, 0, 0, 1]] :: mat"
  let ?p = "[[200000, 0, 200000]] :: vec list"
  let ?c = "[[[0, 0, 1], [0, 1, 1], [1, 1, 1], [1, 0, 1],
             [0, 0, 200000], [0, 1, 200000], [200000, 1, 200000], [1, 0, 200000]]] :: vec list list"
  obtain qs where qs: "project_pts_on_img_pts_2d ?p ?I = Inr qs"
    by (simp add: project_pts_on_img_pts_2d_def matmul_T_def pts_4d_of_def)
  have m: "reshape_4_4 ?I = Inr ?I" by (simp add: reshape_4_4_def)
  obtain qs' where qs': "draw_lidar_bbox3d_on_img_pts_2d ?c ?I = Inr qs'"
    by (simp add: draw_lidar_bbox3d_on_img_pts_2d_def m matmul_T_def)
  have "qs ! 0 ! 2 = 99999 \<and> qs ! 0 ! 0 = 200000 / 99999 \<and> qs ! 0 ! 0 \<noteq> 1"
    using projection_depth_clamped_above[of ?p ?I qs 0 ?c ?I qs' ?I 6] qs
    by (simp add: pts_4d_of_def dot_def)
  moreover have "qs' ! 6 ! 2 = 100000 \<and> qs' ! 6 ! 0 = 2 \<and> qs' ! 6 ! 0 \<noteq> 1"
    using projection_depth_clamped_above[of ?p ?I qs 0 ?c ?I qs' ?I 6] qs' m
    by (simp add: dot_def)
  ultimately show ?thesis using qs qs' m by blast
qed




section \<open>Properties of the oriented boxes\<close>

lemma py_index_3: "0 \<le> ra \<Longrightarrow> ra \<le> 2 \<Longrightarrow> py_index 3 ra = Inr (nat ra)"
  by (simp add: py_index_def)

lemma py_index_bound: "py_index n i = Inr a \<Longrightarrow> a < n"
  by (auto simp: py_index_def split: if_splits)

lemma transpose3:
  "transpose [[a, b, c], [d, e, f], [g, h, i]] = [[a, d, g], [b, e, h], [c, f, i]]"
  by (simp add: transpose.simps)

lemma rot_neg_transpose:
  assumes "a < 3"
  shows "get_rotation_matrix_from_xyz ((replicate 3 0)[a := - t]) =
         transpose (get_rotation_matrix_from_xyz ((replicate 3 0)[a := t]))"
proof -
  from assms consider "a = 0" | "a = 1" | "a = 2" by linarith
  then show ?thesis
  proof cases
    case 1
    then show ?thesis
      by (simp add: get_rotation_matrix_from_xyz_def RotationMatrixX_def RotationMatrixY_def
          RotationMatrixZ_def mat_mul_def dot_def transpose3 numeral_3_eq_3)
  next
    case 2
    then show ?thesis
      by (simp add: get_rotation_matrix_from_xyz_def RotationMatrixX_def RotationMatrixY_def
          RotationMatrixZ_def mat_mul_def dot_def transpose3 numeral_3_eq_3)
  next
    case 3
    then show ?thesis
      by (simp add: get_rotation_matrix_from_xyz_def RotationMatrixX_def RotationMatrixY_def
          RotationMatrixZ_def mat_mul_def dot_def transpose3 numeral_3_eq_3 numeral_2_eq_2)
  qed
qed

text \<open>
  Claim C5. For a row of at least seven entries and \<open>rot_axis\<close> in \<open>0..2\<close>, the centre of
  the box built by \<open>_draw_bboxes\<close> is the row's centre with \<open>size[rot_axis] / 2\<close> added
  along \<open>rot_axis\<close> when \<open>center_mode\<close> is \<open>lidar_bottom\<close>, subtracted when it is
  \<open>camera_bottom\<close>, and unchanged for any other \<open>center_mode\<close>; the other two
  coordinates are never changed.
\<close>

theorem gravity_center_correction:
  "7 \<le> length row \<and> 0 \<le> ra \<and> ra \<le> 2 \<longrightarrow>
     (\<exists>box. draw_bboxes_box ra cm row = Inr box \<and>
        length (obb_center box) = 3 \<and>
        obb_center box ! nat ra =
          (if cm = ''lidar_bottom'' then row ! nat ra + row ! (3 + nat ra) / 2
           else if cm = ''camera_bottom'' then row ! nat ra - row ! (3 + nat ra) / 2
           else row ! nat ra) \<and>
        (\<forall>k<3. k \<noteq> nat ra \<longrightarrow> obb_center box ! k = row ! k))"
proof
  assume a: "7 \<le> length row \<and> 0 \<le> ra \<and> ra \<le> 2"
  then have ix: "py_index 3 ra = Inr (nat ra)" by (simp add: py_index_3)
  have n: "nat ra < 3" using a by auto
  have len: "\<not> length row < 7" using a by simp
  have t: "length (take 3 row) = 3" using a by simp
  have d: "take 3 (drop 3 row) ! nat ra = row ! (3 + nat ra)" using a n by simp
  have c: "take 3 row ! nat ra = row ! nat ra" using n by simp
  show "\<exists>box. draw_bboxes_box ra cm row = Inr box \<and>
        length (obb_center box) = 3 \<and>
        obb_center box ! nat ra =
          (if cm = ''lidar_bottom'' then row ! nat ra + row ! (3 + nat ra) / 2
           else if cm = ''camera_bottom'' then row ! nat ra - row ! (3 + nat ra) / 2
           else row ! nat ra) \<and>
        (\<forall>k<3. k \<noteq> nat ra \<longrightarrow> obb_center box ! k = row ! k)"
    using len ix t d c n by (simp add: draw_bboxes_box_def Let_def)
qed

theorem gravity_center_correction_witness:
  "\<exists>box. draw_bboxes_box 2 ''lidar_bottom'' [1, 2, 3, 4, 6, 8, 0] = Inr box \<and>
      obb_center box ! 2 = 7 \<and> obb_center box ! 0 = 1 \<and> obb_center box ! 1 = 2"
  using gravity_center_correction[of "[1, 2, 3, 4, 6, 8, 0]" 2 "''lidar_bottom''"]
  by (auto simp: numeral_2_eq_2)

text \<open>
  Claim C2, as the code has it. The box of the indexed mode is the box the geometric mode
  builds from the same row with the yaw negated: the centre gets the same correction by
  \<open>center_mode\<close>, the extent is the same, and the rotation is by \<open>-yaw\<close> about
  \<open>rot_axis\<close>, the transpose of the geometric mode's rotation.
\<close>

theorem indexed_box_negates_yaw_only:
  "draw_bboxes_ind_box ra cm row = draw_bboxes_box ra cm (row[6 := - row ! 6]) \<and>
   (draw_bboxes_ind_box ra cm row = Inr bi \<and> draw_bboxes_box ra cm row = Inr bg \<longrightarrow>
      obb_center bi = obb_center bg \<and> obb_extent bi = obb_extent bg \<and>
      (\<exists>a. py_index 3 ra = Inr a \<and>
         obb_R bg = get_rotation_matrix_from_xyz ((replicate 3 0)[a := row ! 6]) \<and>
         obb_R bi = get_rotation_matrix_from_xyz ((replicate 3 0)[a := - row ! 6])) \<and>
      obb_R bi = transpose (obb_R bg))"
proof (rule conjI)
  show "draw_bboxes_ind_box ra cm row = draw_bboxes_box ra cm (row[6 := - row ! 6])"
  proof (cases "length row < 7")
    case True
    then show ?thesis by (simp add: draw_bboxes_ind_box_def draw_bboxes_box_def)
  next
    case False
    then have 1: "take 3 (drop 3 (row[6 := - row ! 6])) = take 3 (drop 3 row)"
      by (simp add: drop_update_swap)
    have 2: "take 3 (row[6 := - row ! 6]) = take 3 row" by simp
    have 3: "row[6 := - row ! 6] ! 6 = - row ! 6" using False by simp
    show ?thesis using False 1 2 3
      by (simp add: draw_bboxes_ind_box_def draw_bboxes_box_def Let_def split: sum.splits)
  qed
next
  show "draw_bboxes_ind_box ra cm row = Inr bi \<and> draw_bboxes_box ra cm row = Inr bg \<longrightarrow>
      obb_center bi = obb_center bg \<and> obb_extent bi = obb_extent bg \<and>
      (\<exists>a. py_index 3 ra = Inr a \<and>
         obb_R bg = get_rotation_matrix_from_xyz ((replicate 3 0)[a := row ! 6]) \<and>
         obb_R bi = get_rotation_matrix_from_xyz ((replicate 3 0)[a := - row ! 6])) \<and>
      obb_R bi = transpose (obb_R bg)"
  proof
    assume h: "draw_bboxes_ind_box ra cm row = Inr bi \<and> draw_bboxes_box ra cm row = Inr bg"
    then obtain a where a: "py_index 3 ra = Inr a" and len: "\<not> length row < 7"
      by (auto simp: draw_bboxes_box_def Let_def split: if_splits sum.splits)
    have a3: "a < 3" using py_index_bound[OF a] .
    have bi: "bi = \<lparr>obb_center =
                   (if cm = ''lidar_bottom'' then (take 3 row)[a := take 3 row ! a + take 3 (drop 3 row) ! a / 2]
                    else if cm = ''camera_bottom'' then (take 3 row)[a := take 3 row ! a - take 3 (drop 3 row) ! a / 2]
                    else take 3 row),
                 obb_R = get_rotation_matrix_from_xyz ((replicate 3 0)[a := - row ! 6]),
                 obb_extent = take 3 (drop 3 row)\<rparr>"
      using h a len by (simp add: draw_bboxes_ind_box_def Let_def)
    have bg: "bg = \<lparr>obb_center =
                   (if cm = ''lidar_bottom'' then (take 3 row)[a := take 3 row ! a + take 3 (drop 3 row) ! a / 2]
                    else if cm = ''camera_bottom'' then (take 3 row)[a := take 3 row ! a - take 3 (drop 3 row) ! a / 2]
                    else take 3 row),
                 obb_R = get_rotation_matrix_from_xyz ((replicate 3 0)[a := row ! 6]),
                 obb_extent = take 3 (drop 3 row)\<rparr>"
      using h a len by (simp add: draw_bboxes_box_def Let_def)
    show "obb_center bi = obb_center bg \<and> obb_extent bi = obb_extent bg \<and>
      (\<exists>a. py_index 3 ra = Inr a \<and>
         obb_R bg = get_rotation_matrix_from_xyz ((replicate 3 0)[a := row ! 6]) \<and>
         obb_R bi = get_rotation_matrix_from_xyz ((replicate 3 0)[a := - row ! 6])) \<and>
      obb_R bi = transpose (obb_R bg)"
      using a rot_neg_transpose[OF a3, of "row ! 6"] by (simp add: bi bg)
  qed
qed

theorem indexed_box_negates_yaw_only_witness:
  "\<exists>bi bg. draw_bboxes_ind_box 2 ''lidar_bottom'' [0, 0, 0, 2, 2, 2, 1] = Inr bi \<and>
      draw_bboxes_box 2 ''lidar_bottom'' [0, 0, 0, 2, 2, 2, 1] = Inr bg \<and>
      obb_center bi = obb_center bg \<and> obb_center bg = [0, 0, 1] \<and>
      obb_R bi = transpose (obb_R bg)"
proof -
  obtain bi where bi: "draw_bboxes_ind_box 2 ''lidar_bottom'' [0, 0, 0, 2, 2, 2, 1] = Inr bi"
    by (simp add: draw_bboxes_ind_box_def py_index_def Let_def)
  obtain bg where bg: "draw_bboxes_box 2 ''lidar_bottom'' [0, 0, 0, 2, 2, 2, 1] = Inr bg"
    and c: "obb_center bg = [0, 0, 1]"
    by (simp add: draw_bboxes_box_def py_index_def Let_def)
  have "obb_center bi = obb_center bg \<and> obb_R bi = transpose (obb_R bg)"
    using indexed_box_negates_yaw_only[of 2 "''lidar_bottom''" "[0, 0, 0, 2, 2, 2, 1]" bi bg] bi bg
    by blast
  then show ?thesis using bi bg c by blast
qed

text \<open>
  Claim C2 as stated fails on the centre: the indexed mode does not use the uncorrected
  centre. For the row \<open>(0, 0, 0, 2, 2, 2, 0)\<close>, \<open>rot_axis = 2\<close> and \<open>lidar_bottom\<close> its box
  is centred at \<open>(0, 0, 1)\<close>.
\<close>

theorem indexed_box_center_counterexample:
  "\<exists>box. draw_bboxes_ind_box 2 ''lidar_bottom'' [0, 0, 0, 2, 2, 2, 0] = Inr box \<and>
      obb_center box = [0, 0, 1] \<and> obb_center box \<noteq> take 3 [0, 0, 0, 2, 2, 2, 0]"
  by (simp add: draw_bboxes_ind_box_def py_index_def Let_def)

section \<open>Properties of the point colours\<close>

lemma channel_div_255: "0 \<le> c \<and> c \<le> 255 \<Longrightarrow> 0 \<le> c / 255 \<and> c / 255 \<le> (1::real)"
  by simp


lemma draw_bboxes_loop_skip:
  "md \<noteq> ''xyz'' \<or> p = None \<Longrightarrow>
   draw_bboxes_loop B vis cols p bc ic ra cm md = Inr (vis', cols') \<Longrightarrow> cols' = cols"
  by (induction B arbitrary: vis) (auto simp: Let_def split: sum.splits option.splits if_splits)

lemma draw_bboxes_ind_loop_skip:
  "md \<noteq> ''xyz'' \<or> p = None \<Longrightarrow>
   draw_bboxes_ind_loop i B vis ind cols p bc ic ra cm md = Inr (vis', cols') \<Longrightarrow> cols' = cols"
  by (induction B arbitrary: vis i) (auto simp: Let_def split: sum.splits option.splits if_splits)




text \<open>
  Claim C9. When the mode is not \<open>xyz\<close> (so in mode \<open>xyzrgb\<close>), neither
  \<open>_draw_bboxes\<close> nor \<open>_draw_bboxes_ind\<close> overwrites a colour: the colour array they
  return is the one they were given, and a point cloud whose colours are that array is
  returned unchanged.
\<close>

theorem recolor_only_in_xyz_mode:
  "md \<noteq> ''xyz'' \<longrightarrow>
     (draw_bboxes B vis cols p bc ic ra cm md = Inr (vis', cols', p') \<longrightarrow>
        cols' = cols \<and> (\<forall>q. p = Some q \<and> pcd_colors q = cols \<longrightarrow> p' = p)) \<and>
     (draw_bboxes_ind B vis ind cols p bc ic ra cm md = Inr (vis'', cols'', p'') \<longrightarrow>
        cols'' = cols \<and> (\<forall>q. p = Some q \<and> pcd_colors q = cols \<longrightarrow> p'' = p))"
proof (intro impI conjI)
  assume m: "md \<noteq> ''xyz''"
  {
    assume a: "draw_bboxes B vis cols p bc ic ra cm md = Inr (vis', cols', p')"
    then obtain v1 where l: "draw_bboxes_loop B vis cols p bc ic ra cm md = Inr (v1, cols')"
      by (auto simp: draw_bboxes_def Let_def split: sum.splits option.splits)
    show c: "cols' = cols" using draw_bboxes_loop_skip[OF _ l] m by simp
    show "\<forall>q. p = Some q \<and> pcd_colors q = cols \<longrightarrow> p' = p"
      using a l c by (auto simp: draw_bboxes_def Let_def split: sum.splits option.splits)
  }
  {
    assume a: "draw_bboxes_ind B vis ind cols p bc ic ra cm md = Inr (vis'', cols'', p'')"
    then obtain v1 where l: "draw_bboxes_ind_loop 0 B vis ind cols p bc ic ra cm md = Inr (v1, cols'')"
      by (auto simp: draw_bboxes_ind_def Let_def split: sum.splits option.splits)
    show c: "cols'' = cols" using draw_bboxes_ind_loop_skip[OF _ l] m by simp
    show "\<forall>q. p = Some q \<and> pcd_colors q = cols \<longrightarrow> p'' = p"
      using a l c by (auto simp: draw_bboxes_ind_def Let_def split: sum.splits option.splits)
  }
qed

theorem recolor_only_in_xyz_mode_witness:
  "(\<exists>vis' p'. draw_bboxes [[0, 0, 0, 2, 2, 2, 0]] [] [[1 / 5, 2 / 5, 3 / 5]]
       (Some \<lparr>pcd_points = [[0, 0, 1]], pcd_colors = [[1 / 5, 2 / 5, 3 / 5]]\<rparr>)
       [0, 1, 0] [1, 0, 0] 2 ''lidar_bottom'' ''xyzrgb'' = Inr (vis', [[1 / 5, 2 / 5, 3 / 5]], p')) \<and>
   (\<exists>vis' p'. draw_bboxes_ind [[0, 0, 0, 2, 2, 2, 0]] [] [[1]] [[1 / 5, 2 / 5, 3 / 5]]
       (Some \<lparr>pcd_points = [[0, 0, 1]], pcd_colors = [[1 / 5, 2 / 5, 3 / 5]]\<rparr>)
       [0, 1, 0] [1, 0, 0] 2 ''lidar_bottom'' ''xyzrgb'' = Inr (vis', [[1 / 5, 2 / 5, 3 / 5]], p'))"
proof -
  let ?p = "Some \<lparr>pcd_points = [[0, 0, 1]], pcd_colors = [[1 / 5, 2 / 5, 3 / 5]]\<rparr>"
  obtain v1 c1 p1 where 1: "draw_bboxes [[0, 0, 0, 2, 2, 2, 0]] [] [[1 / 5, 2 / 5, 3 / 5]] ?p
       [0, 1, 0] [1, 0, 0] 2 ''lidar_bottom'' ''xyzrgb'' = Inr (v1, c1, p1)"
    by (simp add: draw_bboxes_def draw_bboxes_box_def py_index_def Let_def)
  obtain v2 c2 p2 where 2: "draw_bboxes_ind [[0, 0, 0, 2, 2, 2, 0]] [] [[1]] [[1 / 5, 2 / 5, 3 / 5]] ?p
       [0, 1, 0] [1, 0, 0] 2 ''lidar_bottom'' ''xyzrgb'' = Inr (v2, c2, p2)"
    by (simp add: draw_bboxes_ind_def draw_bboxes_ind_box_def py_index_def Let_def)
  have "c1 = [[1 / 5, 2 / 5, 3 / 5]] \<and> c2 = [[1 / 5, 2 / 5, 3 / 5]]"
    using recolor_only_in_xyz_mode[of "''xyzrgb''" "[[0, 0, 0, 2, 2, 2, 0]]" "[]"
        "[[1 / 5, 2 / 5, 3 / 5]]" ?p "[0, 1, 0]" "[1, 0, 0]" 2 "''lidar_bottom''" v1 c1 p1
        "[[1]]" v2 c2 p2] 1 2
    by simp
  then show ?thesis using 1 2 by blast
qed

section \<open>Recolouring the points inside the boxes\<close>

lemma fold_update_length: "length (fold (\<lambda>i cs. cs[i := c]) I cols) = length cols"
  by (induction I arbitrary: cols) auto

lemma fold_update_nth:
  "j < length cols \<Longrightarrow>
   fold (\<lambda>i cs. cs[i := c]) I cols ! j = (if j \<in> set I then c else cols ! j)"
proof (induction I arbitrary: cols)
  case Nil
  then show ?case by simp
next
  case (Cons i I)
  then show ?case by (auto simp: nth_list_update)
qed

lemma set_rows_char:
  assumes "set_rows I c cols = Inr cols'"
  shows "length cols' = length cols"
    and "j < length cols \<Longrightarrow> cols' ! j = (if j \<in> set I then c else cols ! j)"
  using assms by (auto simp: set_rows_def fold_update_length fold_update_nth split: if_splits)

lemma set_rows_rerun:
  assumes "set_rows I c cols = Inr cols'" and "length cols2 = length cols"
  shows "\<exists>r. set_rows I c cols2 = Inr r"
  using assms by (auto simp: set_rows_def split: if_splits)

lemma draw_bboxes_loop_points_only:
  "map_option pcd_points p = map_option pcd_points p' \<Longrightarrow>
   draw_bboxes_loop B vis cols p bc ic ra cm md = draw_bboxes_loop B vis cols p' bc ic ra cm md"
proof (induction B arbitrary: vis cols)
  case Nil
  then show ?case by simp
next
  case (Cons row B)
  show ?case
  proof (cases p)
    case None
    then have "p' = None" using Cons.prems by (cases p') auto
    then show ?thesis using None by simp
  next
    case (Some q)
    then obtain q' where q': "p' = Some q'" "pcd_points q' = pcd_points q"
      using Cons.prems by (cases p') auto
    show ?thesis using Some q' Cons.IH[OF Cons.prems]
      by (auto simp: Let_def split: sum.splits)
  qed
qed

lemma draw_bboxes_loop_rerun:
  "draw_bboxes_loop B vis cols p bc ic ra cm md = Inr r \<Longrightarrow> length cols2 = length cols \<Longrightarrow>
   \<exists>r2. draw_bboxes_loop B vis2 cols2 p bc ic ra cm md = Inr r2"
proof (induction B arbitrary: vis cols vis2 cols2)
  case Nil
  then show ?case by simp
next
  case (Cons row B)
  from Cons.prems(1) obtain box where box: "draw_bboxes_box ra cm row = Inr box"
    by (auto split: sum.splits)
  show ?case
  proof (cases "md = ''xyz'' \<and> p \<noteq> None")
    case False
    then have "draw_bboxes_loop B (vis @ [AddGeometry (LineSetG box bc)]) cols p bc ic ra cm md = Inr r"
      using Cons.prems(1) box by (auto simp: Let_def split: option.splits)
    from Cons.IH[OF this Cons.prems(2), of "vis2 @ [AddGeometry (LineSetG box bc)]"]
    show ?thesis using False box by (auto simp: Let_def split: option.splits)
  next
    case True
    then obtain q where q: "p = Some q" by auto
    let ?I = "get_point_indices_within_bounding_box box (pcd_points q)"
    from Cons.prems(1) box True q obtain c1 where c1: "set_rows ?I ic cols = Inr c1"
      and l: "draw_bboxes_loop B (vis @ [AddGeometry (LineSetG box bc)]) c1 p bc ic ra cm md = Inr r"
      by (auto simp: Let_def split: sum.splits)
    from set_rows_rerun[OF c1 Cons.prems(2)] obtain c2 where c2: "set_rows ?I ic cols2 = Inr c2"
      by blast
    have len: "length c2 = length c1"
      using set_rows_char(1)[OF c1] set_rows_char(1)[OF c2] Cons.prems(2) by simp
    from Cons.IH[OF l len, of "vis2 @ [AddGeometry (LineSetG box bc)]"]
    show ?thesis using True q box c2 by (auto simp: Let_def)
  qed
qed

lemma draw_bboxes_loop_char:
  "draw_bboxes_loop B vis cols p bc ic ra cm md = Inr (vis', cols') \<Longrightarrow>
   length cols' = length cols \<and>
   (\<forall>j<length cols. cols' ! j =
      (if md = ''xyz'' \<and> (\<exists>q row box. p = Some q \<and> row \<in> set B \<and>
             draw_bboxes_box ra cm row = Inr box \<and>
             j \<in> set (get_point_indices_within_bounding_box box (pcd_points q)))
       then ic else cols ! j))"
proof (induction B arbitrary: vis cols)
  case Nil
  then show ?case by simp
next
  case (Cons row B)
  from Cons.prems(1) obtain box where box: "draw_bboxes_box ra cm row = Inr box"
    by (auto split: sum.splits)
  show ?case
  proof (cases "md = ''xyz'' \<and> p \<noteq> None")
    case False
    then have "draw_bboxes_loop B (vis @ [AddGeometry (LineSetG box bc)]) cols p bc ic ra cm md
        = Inr (vis', cols')"
      using Cons.prems(1) box by (auto simp: Let_def split: option.splits)
    from Cons.IH[OF this] show ?thesis using False by auto
  next
    case True
    then obtain q where q: "p = Some q" by auto
    let ?I = "get_point_indices_within_bounding_box box (pcd_points q)"
    from Cons.prems(1) box True q obtain c1 where c1: "set_rows ?I ic cols = Inr c1"
      and l: "draw_bboxes_loop B (vis @ [AddGeometry (LineSetG box bc)]) c1 p bc ic ra cm md
          = Inr (vis', cols')"
      by (auto simp: Let_def split: sum.splits)
    note ih = Cons.IH[OF l]
    have len: "length c1 = length cols" using set_rows_char(1)[OF c1] .
    show ?thesis
    proof (intro conjI allI impI)
      show "length cols' = length cols" using ih len by simp
    next
      fix j assume j: "j < length cols"
      have a: "c1 ! j = (if j \<in> set ?I then ic else cols ! j)"
        using set_rows_char(2)[OF c1 j] .
      have b: "cols' ! j =
        (if md = ''xyz'' \<and> (\<exists>q row box. p = Some q \<and> row \<in> set B \<and>
             draw_bboxes_box ra cm row = Inr box \<and>
             j \<in> set (get_point_indices_within_bounding_box box (pcd_points q)))
         then ic else c1 ! j)"
        using ih j len by simp
      show "cols' ! j =
        (if md = ''xyz'' \<and> (\<exists>q row' box. p = Some q \<and> row' \<in> set (row # B) \<and>
             draw_bboxes_box ra cm row' = Inr box \<and>
             j \<in> set (get_point_indices_within_bounding_box box (pcd_points q)))
         then ic else cols ! j)"
        using a b box q True by auto
    qed
  qed
qed

lemma if_twice: "a = (if w then c else b) \<Longrightarrow> b = (if w then c else d) \<Longrightarrow> a = b"
  by (cases w) auto

lemma draw_bboxes_loop_twice:
  assumes 1: "draw_bboxes_loop B vis cols p bc ic ra cm md = Inr (vis1, cols1)"
  shows "\<exists>vis2. draw_bboxes_loop B vis1' cols1 p bc ic ra cm md = Inr (vis2, cols1)"
proof -
  have len: "length cols1 = length cols" using draw_bboxes_loop_char[OF 1] by simp
  from draw_bboxes_loop_rerun[OF 1 len, of vis1'] obtain vis2 cols2
    where 2: "draw_bboxes_loop B vis1' cols1 p bc ic ra cm md = Inr (vis2, cols2)" by force
  have "cols2 = cols1"
  proof (rule nth_equalityI)
    show "length cols2 = length cols1" using draw_bboxes_loop_char[OF 2] by simp
  next
    fix j assume "j < length cols2"
    then have j: "j < length cols1" "j < length cols"
      using draw_bboxes_loop_char[OF 2] len by simp_all
    have c2: "cols2 ! j =
      (if md = ''xyz'' \<and> (\<exists>q row box. p = Some q \<and> row \<in> set B \<and>
             draw_bboxes_box ra cm row = Inr box \<and>
             j \<in> set (get_point_indices_within_bounding_box box (pcd_points q)))
       then ic else cols1 ! j)"
      using draw_bboxes_loop_char[OF 2] j(1) by blast
    have c1: "cols1 ! j =
      (if md = ''xyz'' \<and> (\<exists>q row box. p = Some q \<and> row \<in> set B \<and>
             draw_bboxes_box ra cm row = Inr box \<and>
             j \<in> set (get_point_indices_within_bounding_box box (pcd_points q)))
       then ic else cols ! j)"
      using draw_bboxes_loop_char[OF 1] j(2) by blast
    show "cols2 ! j = cols1 ! j" by (rule if_twice[OF c2 c1])
  qed
  then show ?thesis using 2 by simp
qed

lemma rotation_z_0: "get_rotation_matrix_from_xyz ((replicate 3 0)[2 := 0]) = [[1, 0, 0], [0, 1, 0], [0, 0, 1]]"
  by (simp add: get_rotation_matrix_from_xyz_def RotationMatrixX_def RotationMatrixY_def
      RotationMatrixZ_def mat_mul_def dot_def transpose.simps numeral_3_eq_3 numeral_2_eq_2)

lemma unit_box: "draw_bboxes_box 2 ''lidar_bottom'' [0, 0, 0, 2, 2, 2, 0] =
   Inr \<lparr>obb_center = [0, 0, 1], obb_R = [[1, 0, 0], [0, 1, 0], [0, 0, 1]], obb_extent = [2, 2, 2]\<rparr>"
  by (simp add: draw_bboxes_box_def py_index_def Let_def rotation_z_0)

lemma unit_box_indices: "get_point_indices_within_bounding_box
   \<lparr>obb_center = [0, 0, 1], obb_R = [[1, 0, 0], [0, 1, 0], [0, 0, 1]], obb_extent = [2, 2, 2]\<rparr>
   [[0, 0, 1], [5, 5, 5]] = [0]"
  by (simp add: get_point_indices_within_bounding_box_def within_bounding_box_def dot_def
      upt_rec[of 0] upt_rec[of 1] upt_rec[of 2] Let_def)

text \<open>
  Claim C8. Recolouring is idempotent: when \<open>_draw_bboxes\<close> returns, running it again
  with the same boxes and settings on the viewer, the colour array and the point cloud it
  returned also returns, with the same colour array and the same point cloud.
\<close>

theorem recolor_idempotent:
  "draw_bboxes B vis cols p bc ic ra cm md = Inr (vis1, cols1, p1) \<longrightarrow>
     (\<exists>vis2. draw_bboxes B vis1 cols1 p1 bc ic ra cm md = Inr (vis2, cols1, p1))"
proof
  assume a: "draw_bboxes B vis cols p bc ic ra cm md = Inr (vis1, cols1, p1)"
  then obtain v1 where l: "draw_bboxes_loop B vis cols p bc ic ra cm md = Inr (v1, cols1)"
    by (auto simp: draw_bboxes_def Let_def split: sum.splits option.splits)
  have p1: "p1 = map_option (\<lambda>q. q\<lparr>pcd_colors := cols1\<rparr>) p"
    using a l by (auto simp: draw_bboxes_def Let_def split: option.splits)
  have same: "map_option pcd_points p1 = map_option pcd_points p"
    unfolding p1 by (cases p) auto
  from draw_bboxes_loop_twice[OF l, of vis1] obtain v2
    where "draw_bboxes_loop B vis1 cols1 p bc ic ra cm md = Inr (v2, cols1)" by blast
  then have 2: "draw_bboxes_loop B vis1 cols1 p1 bc ic ra cm md = Inr (v2, cols1)"
    using draw_bboxes_loop_points_only[OF same] by simp
  show "\<exists>vis2. draw_bboxes B vis1 cols1 p1 bc ic ra cm md = Inr (vis2, cols1, p1)"
    using 2 p1 by (cases p) (auto simp: draw_bboxes_def Let_def)
qed

theorem recolor_idempotent_witness:
  "\<exists>vis1 p1 vis2.
     draw_bboxes [[0, 0, 0, 2, 2, 2, 0]] []
       [[1 / 2, 1 / 2, 1 / 2], [1 / 2, 1 / 2, 1 / 2]]
       (Some \<lparr>pcd_points = [[0, 0, 1], [5, 5, 5]],
              pcd_colors = [[1 / 2, 1 / 2, 1 / 2], [1 / 2, 1 / 2, 1 / 2]]\<rparr>)
       [0, 1, 0] [1, 0, 0] 2 ''lidar_bottom'' ''xyz''
       = Inr (vis1, [[1, 0, 0], [1 / 2, 1 / 2, 1 / 2]], p1) \<and>
     draw_bboxes [[0, 0, 0, 2, 2, 2, 0]] vis1 [[1, 0, 0], [1 / 2, 1 / 2, 1 / 2]] p1
       [0, 1, 0] [1, 0, 0] 2 ''lidar_bottom'' ''xyz''
       = Inr (vis2, [[1, 0, 0], [1 / 2, 1 / 2, 1 / 2]], p1)"
proof -
  obtain vis1 p1 where 1: "draw_bboxes [[0, 0, 0, 2, 2, 2, 0]] []
       [[1 / 2, 1 / 2, 1 / 2], [1 / 2, 1 / 2, 1 / 2]]
       (Some \<lparr>pcd_points = [[0, 0, 1], [5, 5, 5]],
              pcd_colors = [[1 / 2, 1 / 2, 1 / 2], [1 / 2, 1 / 2, 1 / 2]]\<rparr>)
       [0, 1, 0] [1, 0, 0] 2 ''lidar_bottom'' ''xyz''
       = Inr (vis1, [[1, 0, 0], [1 / 2, 1 / 2, 1 / 2]], p1)"
    by (simp add: draw_bboxes_def unit_box unit_box_indices set_rows_def Let_def)
  from recolor_idempotent[of "[[0, 0, 0, 2, 2, 2, 0]]" "[]"
       "[[1 / 2, 1 / 2, 1 / 2], [1 / 2, 1 / 2, 1 / 2]]"
       "Some \<lparr>pcd_points = [[0, 0, 1], [5, 5, 5]],
              pcd_colors = [[1 / 2, 1 / 2, 1 / 2], [1 / 2, 1 / 2, 1 / 2]]\<rparr>"
       "[0, 1, 0]" "[1, 0, 0]" 2 "''lidar_bottom''" "''xyz''" vis1
       "[[1, 0, 0], [1 / 2, 1 / 2, 1 / 2]]" p1] 1
  show ?thesis by blast
qed

section \<open>The scene object\<close>

lemma draw_points_xyzrgb:
  "\<exists>cloud cols. draw_points pts vis ps pc ''xyzrgb'' =
      Inr (vis @ [SetPointSize ps, AddGeometry (PointCloudG cloud)], cloud, cols) \<and>
      pcd_points cloud = map (take 3) pts"
  by (simp add: draw_points_def Let_def)

lemma draw_points_pcd:
  "draw_points pts vis ps pc md = Inr (vis', cloud, cols) \<Longrightarrow> pcd_points cloud = map (take 3) pts"
  by (auto simp: draw_points_def Let_def split: if_splits)

lemma draw_bboxes_pcd:
  "draw_bboxes B vis cols p bc ic ra cm md = Inr (vis', cols', p') \<Longrightarrow>
   map_option pcd_points p' = map_option pcd_points p"
  by (auto simp: draw_bboxes_def Let_def split: sum.splits option.splits)

lemma Visualizer_init_fields:
  assumes "Visualizer_init (Some pts) bb psz pcol bcol icol ra cm md = Inr v0"
  shows "seg_num v0 = 0 \<and> points_size v0 = psz \<and>
         (\<exists>cloud. pcd v0 = Some cloud \<and> pcd_points cloud = map (take 3) pts)"
proof -
  from assms obtain vis1 pcd1 cols1
    where dp: "draw_points pts [CreateWindow, AddGeometry (CoordinateFrameG [0, 0, 0])] psz pcol md
               = Inr (vis1, pcd1, cols1)"
    by (auto simp: Visualizer_init_def Let_def split: if_splits sum.splits)
  note pts = draw_points_pcd[OF dp]
  show ?thesis
  proof (cases bb)
    case None
    then show ?thesis using assms dp pts
      by (auto simp: Visualizer_init_def Let_def split: if_splits)
  next
    case (Some boxes)
    then obtain vis2 cols2 pcd2 where
      db: "draw_bboxes boxes vis1 cols1 (Some pcd1) bcol icol ra cm md = Inr (vis2, cols2, pcd2)"
      and v0: "seg_num v0 = 0" "points_size v0 = psz" "pcd v0 = pcd2"
      using assms dp
      by (auto simp: Visualizer_init_def Let_def split: if_splits sum.splits)
    from draw_bboxes_pcd[OF db] pts v0 show ?thesis by (cases pcd2) auto
  qed
qed

lemma take_3_nth_0: "take 3 q ! 0 = q ! 0"
  by (cases q) auto

lemma add_seg_mask_result:
  assumes "pcd v = Some base" and "pcd_points base \<noteq> []"
  shows "\<exists>v' cloud. add_seg_mask v m = Inr v' \<and>
     seg_num v' = seg_num v + 1 \<and> pcd v' = pcd v \<and> points_size v' = points_size v \<and>
     o3d_visualizer v' = o3d_visualizer v @
       [AddGeometry (CoordinateFrameG
          [(Max (set (map (\<lambda>q. q ! 0) (pcd_points base))) - Min (set (map (\<lambda>q. q ! 0) (pcd_points base))))
             * (12 / 10) * real (seg_num v + 1), 0, 0]),
        SetPointSize (points_size v), AddGeometry (PointCloudG cloud)] \<and>
     pcd_points cloud = map (\<lambda>q. take 3 (q[0 := q ! 0 +
          (Max (set (map (\<lambda>q. q ! 0) (pcd_points base))) - Min (set (map (\<lambda>q. q ! 0) (pcd_points base))))
             * (12 / 10) * real (seg_num v + 1)])) m"
proof -
  let ?off = "(Max (set (map (\<lambda>q. q ! 0) (pcd_points base))) - Min (set (map (\<lambda>q. q ! 0) (pcd_points base))))
             * (12 / 10) * real (seg_num v + 1)"
  let ?seg = "map (\<lambda>q. q[0 := q ! 0 + ?off]) m"
  let ?vis1 = "o3d_visualizer v @ [AddGeometry (CoordinateFrameG [?off, 0, 0])]"
  from draw_points_xyzrgb[of ?seg ?vis1 "points_size v" "[5 / 10, 5 / 10, 5 / 10]"]
  obtain cloud cols where dp: "draw_points ?seg ?vis1 (points_size v) [5 / 10, 5 / 10, 5 / 10] ''xyzrgb''
      = Inr (?vis1 @ [SetPointSize (points_size v), AddGeometry (PointCloudG cloud)], cloud, cols)"
    and pc: "pcd_points cloud = map (take 3) ?seg" by blast
  have "add_seg_mask v m = Inr (v\<lparr>seg_num := seg_num v + 1,
      o3d_visualizer := ?vis1 @ [SetPointSize (points_size v), AddGeometry (PointCloudG cloud)]\<rparr>)"
    using assms dp by (simp add: add_seg_mask_def Let_def)
  then show ?thesis using pc by (simp add: comp_def)
qed

lemma add_seg_masks_result:
  "pcd v = Some base \<Longrightarrow> pcd_points base \<noteq> [] \<Longrightarrow>
   \<exists>v'. add_seg_masks v ms = Inr v' \<and> seg_num v' = seg_num v + length ms \<and> pcd v' = pcd v \<and>
        points_size v' = points_size v"
proof (induction ms arbitrary: v)
  case Nil
  then show ?case by simp
next
  case (Cons m ms)
  from add_seg_mask_result[OF Cons.prems, of m] obtain v1 where
    v1: "add_seg_mask v m = Inr v1" "seg_num v1 = seg_num v + 1" "pcd v1 = pcd v"
      "points_size v1 = points_size v" by blast
  from Cons.IH[of v1] v1 Cons.prems obtain v' where
    "add_seg_masks v1 ms = Inr v'" "seg_num v' = seg_num v1 + length ms" "pcd v' = pcd v1"
    "points_size v' = points_size v1" by auto
  then show ?case using v1 by simp
qed

lemma Visualizer_init_two_points:
  "\<exists>v0. Visualizer_init (Some [[0, 0, 0], [10, 0, 0]]) None 2 [1 / 2, 1 / 2, 1 / 2] [0, 1, 0] [1, 0, 0] 2
       ''lidar_bottom'' ''xyz'' = Inr v0"
  by (simp add: Visualizer_init_def draw_points_def Let_def)

text \<open>
  Claim C1, as the code has it. On a scene built from a non-empty base cloud, the
  \<open>k\<close>-th call of \<open>add_seg_mask\<close> (after \<open>k - 1\<close> earlier calls, the masks \<open>ms\<close>)
  returns, and its offset is \<open>1.2 * k * extent\<close>, where \<open>extent\<close> is the maximum minus
  the minimum of the base cloud's x coordinates: the coordinate frame is added at
  \<open>(offset, 0, 0)\<close> and the points handed to the viewer are the mask's points with
  \<open>offset\<close> added to x. The counter is incremented before the offset is computed.
\<close>

theorem seg_mask_offset:
  "Visualizer_init (Some pts) bb psz pcol bcol icol ra cm md = Inr v0 \<and> pts \<noteq> [] \<longrightarrow>
     (\<exists>v v' cloud. add_seg_masks v0 ms = Inr v \<and> add_seg_mask v m = Inr v' \<and>
        o3d_visualizer v' = o3d_visualizer v @
          [AddGeometry (CoordinateFrameG
             [12 / 10 * real (length ms + 1) *
                (Max (set (map (\<lambda>q. q ! 0) pts)) - Min (set (map (\<lambda>q. q ! 0) pts))), 0, 0]),
           SetPointSize psz, AddGeometry (PointCloudG cloud)] \<and>
        pcd_points cloud = map (\<lambda>q. take 3 (q[0 := q ! 0 +
             12 / 10 * real (length ms + 1) *
                (Max (set (map (\<lambda>q. q ! 0) pts)) - Min (set (map (\<lambda>q. q ! 0) pts)))])) m)"
proof
  assume a: "Visualizer_init (Some pts) bb psz pcol bcol icol ra cm md = Inr v0 \<and> pts \<noteq> []"
  from Visualizer_init_fields[of pts bb psz pcol bcol icol ra cm md v0] a
  obtain base where v0: "seg_num v0 = 0" "points_size v0 = psz" "pcd v0 = Some base"
    "pcd_points base = map (take 3) pts" by blast
  have ne: "pcd_points base \<noteq> []" using v0(4) a by simp
  have xs: "map (\<lambda>q. q ! 0) (pcd_points base) = map (\<lambda>q. q ! 0) pts"
    using v0(4) by (simp add: comp_def take_3_nth_0)
  from add_seg_masks_result[OF v0(3) ne, of ms] obtain v where
    v: "add_seg_masks v0 ms = Inr v" "seg_num v = seg_num v0 + length ms" "pcd v = pcd v0"
      "points_size v = points_size v0" by blast
  have pv: "pcd v = Some base" using v(3) v0(3) by simp
  from add_seg_mask_result[OF pv ne, of m] obtain v' cloud where
    r: "add_seg_mask v m = Inr v'"
      "o3d_visualizer v' = o3d_visualizer v @
       [AddGeometry (CoordinateFrameG
          [(Max (set (map (\<lambda>q. q ! 0) (pcd_points base))) - Min (set (map (\<lambda>q. q ! 0) (pcd_points base))))
             * (12 / 10) * real (seg_num v + 1), 0, 0]),
        SetPointSize (points_size v), AddGeometry (PointCloudG cloud)]"
      "pcd_points cloud = map (\<lambda>q. take 3 (q[0 := q ! 0 +
          (Max (set (map (\<lambda>q. q ! 0) (pcd_points base))) - Min (set (map (\<lambda>q. q ! 0) (pcd_points base))))
             * (12 / 10) * real (seg_num v + 1)])) m"
    by blast
  have off: "(Max (set (map (\<lambda>q. q ! 0) (pcd_points base))) - Min (set (map (\<lambda>q. q ! 0) (pcd_points base))))
             * (12 / 10) * real (seg_num v + 1)
        = 12 / 10 * real (length ms + 1) *
                (Max (set (map (\<lambda>q. q ! 0) pts)) - Min (set (map (\<lambda>q. q ! 0) pts)))"
  proof -
    have sn: "seg_num v + 1 = length ms + 1" using v(2) v0(1) by simp
    have gen: "d * (12 / 10) * k = 12 / 10 * k * d" for d k :: real by simp
    show ?thesis unfolding xs sn by (rule gen)
  qed
  show "\<exists>v v' cloud. add_seg_masks v0 ms = Inr v \<and> add_seg_mask v m = Inr v' \<and>
        o3d_visualizer v' = o3d_visualizer v @
          [AddGeometry (CoordinateFrameG
             [12 / 10 * real (length ms + 1) *
                (Max (set (map (\<lambda>q. q ! 0) pts)) - Min (set (map (\<lambda>q. q ! 0) pts))), 0, 0]),
           SetPointSize psz, AddGeometry (PointCloudG cloud)] \<and>
        pcd_points cloud = map (\<lambda>q. take 3 (q[0 := q ! 0 +
             12 / 10 * real (length ms + 1) *
                (Max (set (map (\<lambda>q. q ! 0) pts)) - Min (set (map (\<lambda>q. q ! 0) pts)))])) m"
    using v(1) r v(4) v0(2) unfolding off
    by (intro exI[of _ v] exI[of _ v'] exI[of _ cloud]) simp
qed

theorem seg_mask_offset_witness:
  "\<exists>v0 v v' cloud.
     Visualizer_init (Some [[0, 0, 0], [10, 0, 0]]) None 2 [1 / 2, 1 / 2, 1 / 2] [0, 1, 0] [1, 0, 0] 2
       ''lidar_bottom'' ''xyz'' = Inr v0 \<and>
     add_seg_masks v0 [[[0, 0, 0, 255, 0, 0]]] = Inr v \<and>
     add_seg_mask v [[1, 0, 0, 0, 255, 0]] = Inr v' \<and>
     o3d_visualizer v' = o3d_visualizer v @
       [AddGeometry (CoordinateFrameG [24, 0, 0]), SetPointSize 2, AddGeometry (PointCloudG cloud)] \<and>
     pcd_points cloud = [[25, 0, 0]]"
proof -
  from Visualizer_init_two_points obtain v0 where v0: "Visualizer_init (Some [[0, 0, 0], [10, 0, 0]]) None 2
       [1 / 2, 1 / 2, 1 / 2] [0, 1, 0] [1, 0, 0] 2 ''lidar_bottom'' ''xyz'' = Inr v0" by blast
  from seg_mask_offset[of "[[0, 0, 0], [10, 0, 0]]" None 2 "[1 / 2, 1 / 2, 1 / 2]" "[0, 1, 0]"
      "[1, 0, 0]" 2 "''lidar_bottom''" "''xyz''" v0 "[[[0, 0, 0, 255, 0, 0]]]" "[[1, 0, 0, 0, 255, 0]]"] v0
  show ?thesis by simp
qed

text \<open>
  Claim C1 as stated fails at the first call: on the base cloud \<open>(0, 0, 0)\<close>,
  \<open>(10, 0, 0)\<close>, of extent 10, the first mask is drawn at offset 12, not 0.
\<close>

theorem seg_mask_first_offset_counterexample:
  "\<exists>v0 v' cloud.
     Visualizer_init (Some [[0, 0, 0], [10, 0, 0]]) None 2 [1 / 2, 1 / 2, 1 / 2] [0, 1, 0] [1, 0, 0] 2
       ''lidar_bottom'' ''xyz'' = Inr v0 \<and>
     add_seg_mask v0 [[1, 0, 0, 0, 255, 0]] = Inr v' \<and>
     o3d_visualizer v' = o3d_visualizer v0 @
       [AddGeometry (CoordinateFrameG [12, 0, 0]), SetPointSize 2, AddGeometry (PointCloudG cloud)] \<and>
     pcd_points cloud = [[13, 0, 0]] \<and> (12::real) \<noteq> 0"
  by (simp add: Visualizer_init_def draw_points_def add_seg_mask_def Let_def)

subsection \<open>Calls after \<open>show\<close>\<close>

lemma draw_points_prefix:
  "draw_points pts (t @ vis) ps pc md =
     map_sum id (\<lambda>(v, c). (t @ v, c)) (draw_points pts vis ps pc md)"
  by (simp add: draw_points_def Let_def)

lemma draw_bboxes_loop_prefix:
  "draw_bboxes_loop B (t @ vis) cols p bc ic ra cm md =
     map_sum id (\<lambda>(v, c). (t @ v, c)) (draw_bboxes_loop B vis cols p bc ic ra cm md)"
  by (induction B arbitrary: vis cols) (auto simp: Let_def split: sum.splits option.splits)

lemma draw_bboxes_prefix:
  "draw_bboxes B (t @ vis) cols p bc ic ra cm md =
     map_sum id (\<lambda>(v, c). (t @ v, c)) (draw_bboxes B vis cols p bc ic ra cm md)"
  by (auto simp: draw_bboxes_def draw_bboxes_loop_prefix Let_def split: sum.splits option.splits)

lemma add_bboxes_trace:
  "add_bboxes v B bc pc =
     map_sum id (\<lambda>s. s\<lparr>o3d_visualizer := o3d_visualizer v @ o3d_visualizer s\<rparr>)
       (add_bboxes (v\<lparr>o3d_visualizer := []\<rparr>) B bc pc)"
  using draw_bboxes_prefix[of B "o3d_visualizer v" "[]"]
  by (auto simp: add_bboxes_def Let_def split: sum.splits option.splits)

lemma add_seg_mask_trace:
  "add_seg_mask v m =
     map_sum id (\<lambda>s. s\<lparr>o3d_visualizer := o3d_visualizer v @ o3d_visualizer s\<rparr>)
       (add_seg_mask (v\<lparr>o3d_visualizer := []\<rparr>) m)"
  by (auto simp: add_seg_mask_def draw_points_def Let_def split: sum.splits option.splits)

lemma Visualizer_show_forget:
  "(Visualizer_show v sp)\<lparr>o3d_visualizer := []\<rparr> = v\<lparr>o3d_visualizer := []\<rparr>"
  by (simp add: Visualizer_show_def)

lemma after_show_same:
  assumes f: "\<And>u. f u = map_sum id (\<lambda>s. s\<lparr>o3d_visualizer := o3d_visualizer u @ o3d_visualizer s\<rparr>)
                 (f (u\<lparr>o3d_visualizer := []\<rparr>))"
  shows "(\<forall>e. f v = Inl e \<longrightarrow> f (Visualizer_show v sp) = Inl e) \<and>
         (\<forall>v'. f v = Inr v' \<longrightarrow>
            (\<exists>calls. o3d_visualizer v' = o3d_visualizer v @ calls \<and>
               f (Visualizer_show v sp) =
                 Inr (v'\<lparr>o3d_visualizer := o3d_visualizer (Visualizer_show v sp) @ calls\<rparr>)))"
proof (cases "f (v\<lparr>o3d_visualizer := []\<rparr>)")
  case (Inl e)
  have "f v = Inl e" using f[of v] Inl by simp
  moreover have "f (Visualizer_show v sp) = Inl e"
    using f[of "Visualizer_show v sp"] Inl by (simp add: Visualizer_show_forget)
  ultimately show ?thesis by simp
next
  case (Inr s)
  have 1: "f v = Inr (s\<lparr>o3d_visualizer := o3d_visualizer v @ o3d_visualizer s\<rparr>)"
    using f[of v] Inr by simp
  have 2: "f (Visualizer_show v sp) =
      Inr (s\<lparr>o3d_visualizer := o3d_visualizer (Visualizer_show v sp) @ o3d_visualizer s\<rparr>)"
    using f[of "Visualizer_show v sp"] Inr by (simp add: Visualizer_show_forget)
  show ?thesis using 1 2 by auto
qed

lemma Visualizer_init_scene:
  "Visualizer_init (Some [[0, 0, 1], [5, 5, 5]]) None 2 [1 / 2, 1 / 2, 1 / 2] [0, 1, 0] [1, 0, 0] 2
       ''lidar_bottom'' ''xyz'' =
   Inr \<lparr>o3d_visualizer = [CreateWindow, AddGeometry (CoordinateFrameG [0, 0, 0]), SetPointSize 2,
           AddGeometry (PointCloudG \<lparr>pcd_points = [[0, 0, 1], [5, 5, 5]],
              pcd_colors = [[1 / 2, 1 / 2, 1 / 2], [1 / 2, 1 / 2, 1 / 2]]\<rparr>)],
        points_size = 2, point_color = [1 / 2, 1 / 2, 1 / 2], bbox_color = [0, 1, 0],
        points_in_box_color = [1, 0, 0], rot_axis = 2, center_mode = ''lidar_bottom'',
        mode = ''xyz'', seg_num = 0,
        pcd = Some \<lparr>pcd_points = [[0, 0, 1], [5, 5, 5]],
              pcd_colors = [[1 / 2, 1 / 2, 1 / 2], [1 / 2, 1 / 2, 1 / 2]]\<rparr>,
        points_colors = Some [[1 / 2, 1 / 2, 1 / 2], [1 / 2, 1 / 2, 1 / 2]]\<rparr>"
  by (simp add: Visualizer_init_def draw_points_def Let_def numeral_2_eq_2)

text \<open>
  Claim C4, as the code has it. \<open>show\<close> ends with \<open>destroy_window\<close> and changes no
  attribute of the scene object; the object records no closed state and neither
  \<open>add_bboxes\<close> nor \<open>add_seg_mask\<close> checks the window. After \<open>show\<close> each of them does
  what it does before \<open>show\<close>: it raises the same error, or it returns the same object,
  its viewer calls made on the destroyed window. What the viewer does with such a call is
  outside the module.
\<close>

theorem no_check_after_show:
  "last (o3d_visualizer (Visualizer_show v sp)) = DestroyWindow \<and>
   (\<forall>e. add_bboxes v B bc pc = Inl e \<longrightarrow> add_bboxes (Visualizer_show v sp) B bc pc = Inl e) \<and>
   (\<forall>v'. add_bboxes v B bc pc = Inr v' \<longrightarrow>
      (\<exists>calls. o3d_visualizer v' = o3d_visualizer v @ calls \<and>
         add_bboxes (Visualizer_show v sp) B bc pc =
           Inr (v'\<lparr>o3d_visualizer := o3d_visualizer (Visualizer_show v sp) @ calls\<rparr>))) \<and>
   (\<forall>e. add_seg_mask v m = Inl e \<longrightarrow> add_seg_mask (Visualizer_show v sp) m = Inl e) \<and>
   (\<forall>v'. add_seg_mask v m = Inr v' \<longrightarrow>
      (\<exists>calls. o3d_visualizer v' = o3d_visualizer v @ calls \<and>
         add_seg_mask (Visualizer_show v sp) m =
           Inr (v'\<lparr>o3d_visualizer := o3d_visualizer (Visualizer_show v sp) @ calls\<rparr>)))"
proof -
  have 0: "last (o3d_visualizer (Visualizer_show v sp)) = DestroyWindow"
    by (simp add: Visualizer_show_def)
  have 1: "(\<forall>e. add_bboxes v B bc pc = Inl e \<longrightarrow> add_bboxes (Visualizer_show v sp) B bc pc = Inl e) \<and>
   (\<forall>v'. add_bboxes v B bc pc = Inr v' \<longrightarrow>
      (\<exists>calls. o3d_visualizer v' = o3d_visualizer v @ calls \<and>
         add_bboxes (Visualizer_show v sp) B bc pc =
           Inr (v'\<lparr>o3d_visualizer := o3d_visualizer (Visualizer_show v sp) @ calls\<rparr>)))"
    by (rule after_show_same[where f = "\<lambda>u. add_bboxes u B bc pc"]) (rule add_bboxes_trace)
  have 2: "(\<forall>e. add_seg_mask v m = Inl e \<longrightarrow> add_seg_mask (Visualizer_show v sp) m = Inl e) \<and>
   (\<forall>v'. add_seg_mask v m = Inr v' \<longrightarrow>
      (\<exists>calls. o3d_visualizer v' = o3d_visualizer v @ calls \<and>
         add_seg_mask (Visualizer_show v sp) m =
           Inr (v'\<lparr>o3d_visualizer := o3d_visualizer (Visualizer_show v sp) @ calls\<rparr>)))"
    by (rule after_show_same[where f = "\<lambda>u. add_seg_mask u m"]) (rule add_seg_mask_trace)
  show ?thesis using 0 1 2 by blast
qed

theorem no_check_after_show_witness:
  "\<exists>v0 v' calls.
     Visualizer_init (Some [[0, 0, 1], [5, 5, 5]]) None 2 [1 / 2, 1 / 2, 1 / 2] [0, 1, 0] [1, 0, 0] 2
       ''lidar_bottom'' ''xyz'' = Inr v0 \<and>
     add_bboxes v0 [[0, 0, 0, 2, 2, 2, 0]] None None = Inr v' \<and>
     o3d_visualizer v' = o3d_visualizer v0 @ calls \<and>
     add_bboxes (Visualizer_show v0 None) [[0, 0, 0, 2, 2, 2, 0]] None None =
       Inr (v'\<lparr>o3d_visualizer := o3d_visualizer (Visualizer_show v0 None) @ calls\<rparr>)"
proof -
  obtain v0 where v0: "Visualizer_init (Some [[0, 0, 1], [5, 5, 5]]) None 2 [1 / 2, 1 / 2, 1 / 2]
       [0, 1, 0] [1, 0, 0] 2 ''lidar_bottom'' ''xyz'' = Inr v0"
    and f: "points_colors v0 = Some [[1 / 2, 1 / 2, 1 / 2], [1 / 2, 1 / 2, 1 / 2]]"
      "pcd v0 = Some \<lparr>pcd_points = [[0, 0, 1], [5, 5, 5]],
              pcd_colors = [[1 / 2, 1 / 2, 1 / 2], [1 / 2, 1 / 2, 1 / 2]]\<rparr>"
      "rot_axis v0 = 2" "center_mode v0 = ''lidar_bottom''" "mode v0 = ''xyz''"
    by (simp add: Visualizer_init_scene)
  obtain v' where v': "add_bboxes v0 [[0, 0, 0, 2, 2, 2, 0]] None None = Inr v'"
    using f by (simp add: add_bboxes_def draw_bboxes_def unit_box unit_box_indices set_rows_def Let_def)
  from no_check_after_show[of v0 None "[[0, 0, 0, 2, 2, 2, 0]]" None None "[]"] v'
  obtain calls where "o3d_visualizer v' = o3d_visualizer v0 @ calls"
    "add_bboxes (Visualizer_show v0 None) [[0, 0, 0, 2, 2, 2, 0]] None None =
       Inr (v'\<lparr>o3d_visualizer := o3d_visualizer (Visualizer_show v0 None) @ calls\<rparr>)"
    by blast
  then show ?thesis using v0 v' by blast
qed

text \<open>
  Claim C4 as stated fails: on a scene of two points, after \<open>show\<close> has destroyed the
  window, \<open>add_bboxes\<close> returns and recolours the point inside the box, and
  \<open>add_seg_mask\<close> returns and counts the mask; neither raises an error.
\<close>

theorem closed_scene_call_counterexample:
  "\<exists>v0 v1 v2.
     Visualizer_init (Some [[0, 0, 1], [5, 5, 5]]) None 2 [1 / 2, 1 / 2, 1 / 2] [0, 1, 0] [1, 0, 0] 2
       ''lidar_bottom'' ''xyz'' = Inr v0 \<and>
     last (o3d_visualizer (Visualizer_show v0 None)) = DestroyWindow \<and>
     add_bboxes (Visualizer_show v0 None) [[0, 0, 0, 2, 2, 2, 0]] None None = Inr v1 \<and>
     points_colors v1 = Some [[1, 0, 0], [1 / 2, 1 / 2, 1 / 2]] \<and>
     add_seg_mask (Visualizer_show v0 None) [[1, 0, 0, 0, 255, 0]] = Inr v2 \<and>
     seg_num v2 = 1"
  by (simp add: Visualizer_init_scene Visualizer_show_def add_bboxes_def draw_bboxes_def unit_box
      unit_box_indices set_rows_def add_seg_mask_def draw_points_def Let_def)

end
